theory Spec2Isabelle
  imports Complex_Main "HOL-Library.Char_ord" "HOL-Library.List_Lexorder" "HOL-Library.Multiset"
begin

section \<open>Data model\<close>

text \<open>
  The dashboard (\<^verbatim>\<open>streamlit_dashboard.py\<close>) loads the documents of the
  \<^verbatim>\<open>sessions\<close> collection into a pandas frame, one row per document. The model
  follows the frame: a table is the list of its rows, in row order.

  The exceptions the modelled statements can raise are values of \<open>error\<close>.
\<close>

datatype error = KeyError string | AttributeError | IndexError

text \<open>
  A nested sub-object is a Python dict whose keys may be absent. Each key is a slot that
  holds the stored value or nothing; \<^verbatim>\<open>x.get(key, default)\<close> reads a slot. The
  categorical values are strings, the numeric ones exact integers (the rounding of
  floating-point sales is not modelled).
\<close>

record device_info =
  di_device :: "string option"
  di_browser :: "string option"

record session_metadata =
  md_source :: "string option"
  md_sales :: "int option"
  md_pageViews :: "int option"
  md_duration :: "int option"

record session_tags =
  tag_type :: "string option"
  tag_segment :: "string option"
  tag_category :: "string option"

text \<open>
  A timestamp as \<^verbatim>\<open>pd.to_datetime\<close> yields it: a calendar date (its day number) and
  the time of day. \<^verbatim>\<open>.dt.date\<close> is the projection \<open>date\<close>.
\<close>

record timestamp =
  date :: int
  time_of_day :: nat

text \<open>
  A row of the frame \<^verbatim>\<open>pd.DataFrame(sessions)\<close>. The frame's columns are the union
  of the documents' keys, and a document that lacks a key of another document has the
  cell NaN there: the cell of a nested column is \<open>None\<close> for such a document.
\<close>

record raw_session =
  mongo_id :: string
  startTime :: timestamp
  lastActivity :: timestamp
  deviceInfo :: "device_info option"
  sessionMetadata :: "session_metadata option"
  sessionTags :: "session_tags option"

text \<open>
  A row after lines 50--58: the raw columns and the nine derived ones.
\<close>

record session = raw_session +
  device :: string
  browser :: string
  source :: string
  sales :: int
  pageViews :: int
  duration :: int
  session_type :: string
  segment :: string
  category :: string

section \<open>Field normalizer (lines 50--58)\<close>

definition bind_result :: "error + 'a \<Rightarrow> ('a \<Rightarrow> error + 'b) \<Rightarrow> error + 'b" where
  "bind_result m f = (case m of Inl e \<Rightarrow> Inl e | Inr v \<Rightarrow> f v)"

text \<open>\<^verbatim>\<open>x.get(key, default)\<close> on the slot of \<open>key\<close>.\<close>

definition dict_get :: "'a option \<Rightarrow> 'a \<Rightarrow> 'a" where
  "dict_get slot dflt = (case slot of None \<Rightarrow> dflt | Some v \<Rightarrow> v)"

text \<open>
  \<^verbatim>\<open>lambda x: x.get(key, default)\<close> on one cell. A NaN cell is a float, which has no
  attribute \<^verbatim>\<open>get\<close>: AttributeError.
\<close>

fun cell_get :: "('d \<Rightarrow> 'a option) \<Rightarrow> 'a \<Rightarrow> 'd option \<Rightarrow> error + 'a" where
  "cell_get key dflt None = Inl AttributeError"
| "cell_get key dflt (Some x) = Inr (dict_get (key x) dflt)"

text \<open>
  \<^verbatim>\<open>df[name]\<close>: the column, or KeyError when the frame has no such column, that is
  when no document has the key (an empty frame has no column at all).
\<close>

definition getitem :: "string \<Rightarrow> ('r \<Rightarrow> 'c option) \<Rightarrow> 'r list \<Rightarrow> error + 'c option list" where
  "getitem name cell table =
     (if list_ex (\<lambda>r. cell r \<noteq> None) table then Inr (map cell table)
      else Inl (KeyError name))"

text \<open>\<^verbatim>\<open>Series.apply(f)\<close>: \<open>f\<close> on each cell in row order; the first raise ends it.\<close>

fun series_apply :: "('c \<Rightarrow> error + 'a) \<Rightarrow> 'c list \<Rightarrow> error + 'a list" where
  "series_apply f [] = Inr []"
| "series_apply f (c # cs) =
     bind_result (f c) (\<lambda>y. bind_result (series_apply f cs) (\<lambda>ys. Inr (y # ys)))"

text \<open>
  The nine assignments \<^verbatim>\<open>df['device'] = df['deviceInfo'].apply(...)\<close> and so on, in
  the order of the source; row \<open>i\<close> of the result is row \<open>i\<close> of the frame with the
  \<open>i\<close>-th entry of each new column.
\<close>

definition normalize_fields :: "raw_session list \<Rightarrow> error + session list" where
  "normalize_fields table =
     bind_result (bind_result (getitem ''deviceInfo'' deviceInfo table)
                   (series_apply (cell_get di_device ''Unknown''))) (\<lambda>device_col.
     bind_result (bind_result (getitem ''deviceInfo'' deviceInfo table)
                   (series_apply (cell_get di_browser ''Unknown''))) (\<lambda>browser_col.
     bind_result (bind_result (getitem ''sessionMetadata'' sessionMetadata table)
                   (series_apply (cell_get md_source ''Unknown''))) (\<lambda>source_col.
     bind_result (bind_result (getitem ''sessionMetadata'' sessionMetadata table)
                   (series_apply (cell_get md_sales 0))) (\<lambda>sales_col.
     bind_result (bind_result (getitem ''sessionMetadata'' sessionMetadata table)
                   (series_apply (cell_get md_pageViews 0))) (\<lambda>pageViews_col.
     bind_result (bind_result (getitem ''sessionMetadata'' sessionMetadata table)
                   (series_apply (cell_get md_duration 0))) (\<lambda>duration_col.
     bind_result (bind_result (getitem ''sessionTags'' sessionTags table)
                   (series_apply (cell_get tag_type ''Unknown''))) (\<lambda>session_type_col.
     bind_result (bind_result (getitem ''sessionTags'' sessionTags table)
                   (series_apply (cell_get tag_segment ''Unknown''))) (\<lambda>segment_col.
     bind_result (bind_result (getitem ''sessionTags'' sessionTags table)
                   (series_apply (cell_get tag_category ''Unknown''))) (\<lambda>category_col.
     Inr (map (\<lambda>i. raw_session.extend (table ! i)
                 \<lparr>device = device_col ! i, browser = browser_col ! i,
                  source = source_col ! i, sales = sales_col ! i,
                  pageViews = pageViews_col ! i, duration = duration_col ! i,
                  session_type = session_type_col ! i, segment = segment_col ! i,
                  category = category_col ! i\<rparr>)
            [0..<length table]))))))))))"

text \<open>
  The normalizer as the specification words it (section 4.2): a total function of one
  record, where an absent nested object or an absent key yields the default.
\<close>

definition spec_get :: "'d option \<Rightarrow> ('d \<Rightarrow> 'a option) \<Rightarrow> 'a \<Rightarrow> 'a" where
  "spec_get obj key dflt = (case obj of None \<Rightarrow> dflt | Some x \<Rightarrow> dict_get (key x) dflt)"

definition spec_normalize_record :: "raw_session \<Rightarrow> session" where
  "spec_normalize_record r =
     raw_session.extend r
       \<lparr>device = spec_get (deviceInfo r) di_device ''Unknown'',
        browser = spec_get (deviceInfo r) di_browser ''Unknown'',
        source = spec_get (sessionMetadata r) md_source ''Unknown'',
        sales = spec_get (sessionMetadata r) md_sales 0,
        pageViews = spec_get (sessionMetadata r) md_pageViews 0,
        duration = spec_get (sessionMetadata r) md_duration 0,
        session_type = spec_get (sessionTags r) tag_type ''Unknown'',
        segment = spec_get (sessionTags r) tag_segment ''Unknown'',
        category = spec_get (sessionTags r) tag_category ''Unknown''\<rparr>"

text \<open>A record has its three nested sub-objects.\<close>

definition has_subobjects :: "raw_session \<Rightarrow> bool" where
  "has_subobjects r \<longleftrightarrow>
     deviceInfo r \<noteq> None \<and> sessionMetadata r \<noteq> None \<and> sessionTags r \<noteq> None"

section \<open>Filter engine (lines 86--91)\<close>

text \<open>
  \<^verbatim>\<open>date_range\<close> is the tuple \<^verbatim>\<open>st.sidebar.date_input\<close> returns (the dates picked so
  far). \<^verbatim>\<open>date_range[i]\<close> raises IndexError beyond its length.
\<close>

definition tuple_getitem :: "'a list \<Rightarrow> nat \<Rightarrow> error + 'a" where
  "tuple_getitem t i = (if i < length t then Inr (t ! i) else Inl IndexError)"

text \<open>\<^verbatim>\<open>Series.isin(values)\<close>: the mask of the cells that are among \<open>values\<close>.\<close>

definition isin :: "'a list \<Rightarrow> 'a list \<Rightarrow> bool list" where
  "isin col vals = map (\<lambda>v. v \<in> set vals) col"

text \<open>\<^verbatim>\<open>m1 & m2\<close> on two masks of one frame, cell by cell.\<close>

definition and_mask :: "bool list \<Rightarrow> bool list \<Rightarrow> bool list" where
  "and_mask m1 m2 = map (\<lambda>(a, b). a \<and> b) (zip m1 m2)"

text \<open>\<^verbatim>\<open>df[mask]\<close>: a new frame of the rows whose mask cell is True, in row order.\<close>

definition boolean_index :: "'r list \<Rightarrow> bool list \<Rightarrow> 'r list" where
  "boolean_index table msk = map fst (filter snd (zip table msk))"

definition filter_engine ::
  "session list \<Rightarrow> int list \<Rightarrow> string list \<Rightarrow> string list \<Rightarrow> error + session list" where
  "filter_engine table date_range devices session_types =
     bind_result (tuple_getitem date_range 0) (\<lambda>d0.
     bind_result (tuple_getitem date_range 1) (\<lambda>d1.
       Inr (boolean_index table
         (and_mask
           (and_mask
             (and_mask (map (\<lambda>r. d0 \<le> date (startTime r)) table)
                       (map (\<lambda>r. date (startTime r) \<le> d1) table))
             (isin (map device table) devices))
           (isin (map session_type table) session_types)))))"

text \<open>
  The two frames of a render pass as the variables of the script hold them:
  \<^verbatim>\<open>df\<close> after normalization and \<^verbatim>\<open>filtered_df\<close>, unbound before line 86.
  The statement of lines 86--91 assigns \<^verbatim>\<open>filtered_df\<close>.
\<close>

record render_state =
  df :: "session list"
  filtered_df :: "session list option"

definition apply_filters ::
  "render_state \<Rightarrow> int list \<Rightarrow> string list \<Rightarrow> string list \<Rightarrow> error + render_state" where
  "apply_filters s date_range devices session_types =
     bind_result (filter_engine (df s) date_range devices session_types)
       (\<lambda>out. Inr (s\<lparr>filtered_df := Some out\<rparr>))"

section \<open>Metrics (lines 107--124 and 193--205)\<close>

text \<open>
  The metrics are numpy floats. A float is modelled by the exact rational it stands for,
  or one of the three special values; rounding is not modelled.
\<close>

datatype np_float = Finite rat | NaN | PosInf | NegInf


text \<open>
  \<^verbatim>\<open>a / b\<close> for a numpy integer \<open>a\<close> (the result of \<^verbatim>\<open>Series.sum()\<close>): true division
  in float64. Division by zero does not raise; numpy warns and returns NaN for 0/0 and
  an infinity otherwise.
\<close>

definition np_true_divide :: "int \<Rightarrow> int \<Rightarrow> np_float" where
  "np_true_divide a b =
     (if b = 0 then (if a = 0 then NaN else if 0 < a then PosInf else NegInf)
      else Finite (of_int a / of_int b))"

text \<open>\<^verbatim>\<open>x * c\<close> and \<^verbatim>\<open>x / c\<close> for a float \<open>x\<close> and a positive constant \<open>c\<close>.\<close>

fun np_scale :: "np_float \<Rightarrow> rat \<Rightarrow> np_float" where
  "np_scale (Finite q) c = Finite (q * c)"
| "np_scale x c = x"

definition count_rows :: "session list \<Rightarrow> nat" where
  "count_rows table = length table"

definition total_sales :: "session list \<Rightarrow> int" where
  "total_sales table = sum_list (map sales table)"


text \<open>
  \<^verbatim>\<open>(filtered_df['session_type'] == v).sum() / len(filtered_df) * 100\<close>: the sum of a
  mask counts its True cells.
\<close>

definition mask_sum :: "bool list \<Rightarrow> int" where
  "mask_sum msk = sum_list (map (\<lambda>b. if b then 1 else 0) msk)"

definition rate :: "string \<Rightarrow> session list \<Rightarrow> np_float" where
  "rate v table =
     np_scale (np_true_divide (mask_sum (map (\<lambda>r. session_type r = v) table))
                 (int (length table))) 100"

definition conversion_rate :: "session list \<Rightarrow> np_float" where
  "conversion_rate table = rate ''converted'' table"





section \<open>Grouped aggregates (lines 157, 178 and 209)\<close>

text \<open>
  \<^verbatim>\<open>df.groupby(key)\<close> with the defaults of pandas (\<^verbatim>\<open>sort=True\<close>): one group for each
  distinct key, the groups in ascending key order, the rows of a group in row order.
\<close>

definition groupby :: "('r \<Rightarrow> 'k::linorder) \<Rightarrow> 'r list \<Rightarrow> ('k \<times> 'r list) list" where
  "groupby key table =
     map (\<lambda>k. (k, filter (\<lambda>r. key r = k) table)) (sort (remdups (map key table)))"

text \<open>\<^verbatim>\<open>groupby(key)[measure].sum()\<close> and \<^verbatim>\<open>groupby(key).size()\<close>.\<close>

definition groupby_sum :: "('r \<Rightarrow> 'k::linorder) \<Rightarrow> ('r \<Rightarrow> int) \<Rightarrow> 'r list \<Rightarrow> ('k \<times> int) list" where
  "groupby_sum key val table =
     map (\<lambda>(k, g). (k, sum_list (map val g))) (groupby key table)"

definition groupby_size :: "('r \<Rightarrow> 'k::linorder) \<Rightarrow> 'r list \<Rightarrow> ('k \<times> nat) list" where
  "groupby_size key table = map (\<lambda>(k, g). (k, length g)) (groupby key table)"

text \<open>
  \<^verbatim>\<open>Series.sort_values(ascending=False)\<close>. pandas reverses the series, sorts it
  ascending and reverses the result. The ascending sort is modelled by insertion sort,
  which is what numpy's default kind runs on a short array; the theorems below about
  the order of the values hold for every sorting algorithm.
\<close>

definition sort_values_desc :: "('k \<times> int) list \<Rightarrow> ('k \<times> int) list" where
  "sort_values_desc s = rev (sort_key snd (rev s))"

definition group_sum :: "('r \<Rightarrow> 'k::linorder) \<Rightarrow> ('r \<Rightarrow> int) \<Rightarrow> 'r list \<Rightarrow> ('k \<times> int) list" where
  "group_sum key val table = sort_values_desc (groupby_sum key val table)"


definition sales_by_category :: "session list \<Rightarrow> (string \<times> int) list" where
  "sales_by_category table = group_sum category sales table"

definition sessions_by_date :: "session list \<Rightarrow> (int \<times> nat) list" where
  "sessions_by_date table = groupby_size (\<lambda>r. date (startTime r)) table"


section \<open>Example inputs\<close>

text \<open>
  A document with the given nested sub-objects, and a normalized row with the given
  date, device, session type, source and sales.
\<close>

definition example_raw ::
  "device_info option \<Rightarrow> session_metadata option \<Rightarrow> session_tags option \<Rightarrow> raw_session" where
  "example_raw di md tg =
     \<lparr>mongo_id = ''s'', startTime = \<lparr>date = 19000, time_of_day = 0\<rparr>,
      lastActivity = \<lparr>date = 19000, time_of_day = 60\<rparr>,
      deviceInfo = di, sessionMetadata = md, sessionTags = tg\<rparr>"

definition no_device_keys :: device_info where
  "no_device_keys = \<lparr>di_device = None, di_browser = None\<rparr>"

definition no_metadata_keys :: session_metadata where
  "no_metadata_keys =
     \<lparr>md_source = None, md_sales = None, md_pageViews = None, md_duration = None\<rparr>"

definition no_tag_keys :: session_tags where
  "no_tag_keys = \<lparr>tag_type = None, tag_segment = None, tag_category = None\<rparr>"

definition example_row :: "int \<Rightarrow> string \<Rightarrow> string \<Rightarrow> string \<Rightarrow> int \<Rightarrow> session" where
  "example_row day dev ty src amount =
     \<lparr>mongo_id = ''s'', startTime = \<lparr>date = day, time_of_day = 0\<rparr>,
      lastActivity = \<lparr>date = day, time_of_day = 60\<rparr>,
      deviceInfo = Some \<lparr>di_device = Some dev, di_browser = None\<rparr>,
      sessionMetadata = Some \<lparr>md_source = Some src, md_sales = Some amount,
                              md_pageViews = None, md_duration = None\<rparr>,
      sessionTags = Some \<lparr>tag_type = Some ty, tag_segment = None, tag_category = None\<rparr>,
      device = dev, browser = ''Unknown'', source = src, sales = amount, pageViews = 0,
      duration = 0, session_type = ty, segment = ''Unknown'', category = ''Unknown''\<rparr>"

text \<open>The table of three records of the specification's scenario (section 8).\<close>

definition scenario_table :: "session list" where
  "scenario_table =
     [example_row 19000 ''mobile'' ''converted'' ''ads'' 50,
      example_row 19001 ''desktop'' ''bounced'' ''ads'' 0,
      example_row 19002 ''mobile'' ''converted'' ''email'' 30]"

section \<open>Auxiliary facts\<close>

lemma bind_result_Inr [simp]: "bind_result (Inr v) f = f v"
  by (simp add: bind_result_def)

lemma bind_result_Inl [simp]: "bind_result (Inl e) f = Inl e"
  by (simp add: bind_result_def)

subsection \<open>Columns of the normalizer\<close>

lemma series_apply_cell_get:
  "\<forall>r\<in>set table. cell r \<noteq> None \<Longrightarrow>
   series_apply (cell_get key dflt) (map cell table) =
     Inr (map (\<lambda>r. spec_get (cell r) key dflt) table)"
  by (induction table) (auto simp: spec_get_def)

lemma column_apply:
  assumes "table \<noteq> []" and "\<forall>r\<in>set table. cell r \<noteq> None"
  shows "bind_result (getitem name cell table) (series_apply (cell_get key dflt)) =
         Inr (map (\<lambda>r. spec_get (cell r) key dflt) table)"
proof -
  from assms have "list_ex (\<lambda>r. cell r \<noteq> None) table"
    by (cases table) (auto simp: list_ex_iff)
  then show ?thesis
    using assms(2) by (simp add: getitem_def series_apply_cell_get)
qed

lemma rows_by_index: "map (\<lambda>i. f (table ! i)) [0..<length table] = map f table"
  by (rule nth_equalityI) simp_all

subsection \<open>Masks\<close>

lemma boolean_index_map: "boolean_index table (map P table) = filter P table"
  by (induction table) (simp_all add: boolean_index_def)

lemma and_mask_map: "and_mask (map P xs) (map Q xs) = map (\<lambda>x. P x \<and> Q x) xs"
  by (induction xs) (simp_all add: and_mask_def)

lemma isin_map: "isin (map f xs) vals = map (\<lambda>x. f x \<in> set vals) xs"
  by (simp add: isin_def)

text \<open>
  The filter engine on any tuple: IndexError when fewer than two dates are picked,
  otherwise the rows that pass the four tests.
\<close>

lemma filter_engine_cases:
  "filter_engine table date_range devices session_types =
     (if length date_range < 2 then Inl IndexError
      else Inr (filter (\<lambda>r. date_range ! 0 \<le> date (startTime r) \<and>
                           date (startTime r) \<le> date_range ! 1 \<and>
                           device r \<in> set devices \<and>
                           session_type r \<in> set session_types) table))"
  by (auto simp add: filter_engine_def tuple_getitem_def isin_map and_mask_map
      boolean_index_map conj_assoc)

subsection \<open>Groups\<close>


lemma groupby_size_keys: "map fst (groupby_size key table) = sort (remdups (map key table))"
  by (simp add: groupby_size_def groupby_def comp_def)

lemma map_of_keyed:
  "map_of (map (\<lambda>k. (k, f k)) ks) d = (if d \<in> set ks then Some (f d) else None)"
  by (induction ks) auto






text \<open>The scenario table, filtered to mobile and converted over its three days.\<close>

lemma scenario_filtered:
  "filter_engine scenario_table [19000, 19002] [''mobile''] [''converted''] =
     Inr [example_row 19000 ''mobile'' ''converted'' ''ads'' 50,
          example_row 19002 ''mobile'' ''converted'' ''email'' 30]"
  by (simp add: filter_engine_cases scenario_table_def example_row_def)

lemma scenario_metrics:
  "count_rows [example_row 19000 ''mobile'' ''converted'' ''ads'' 50,
               example_row 19002 ''mobile'' ''converted'' ''email'' 30] = 2 \<and>
   total_sales [example_row 19000 ''mobile'' ''converted'' ''ads'' 50,
                example_row 19002 ''mobile'' ''converted'' ''email'' 30] = 80 \<and>
   conversion_rate [example_row 19000 ''mobile'' ''converted'' ''ads'' 50,
                    example_row 19002 ''mobile'' ''converted'' ''email'' 30] = Finite 100"
  by (simp add: count_rows_def total_sales_def conversion_rate_def rate_def
      np_true_divide_def mask_sum_def example_row_def)

section \<open>The claims\<close>

subsection \<open>Field normalizer\<close>

text \<open>
  Claim C1, as amended. The claim promises the nine derived fields and no raise for a
  record that misses any subset of its nested sub-objects or nested keys. The code reads
  the keys with \<^verbatim>\<open>x.get(key, default)\<close>, which covers a missing key, and nothing
  covers a missing sub-object. What holds: for every non-empty table whose records all
  have their three nested sub-objects, whatever nested keys they miss, the normalizer
  does not raise and gives every record the nine derived fields
  (\<open>device\<close>, \<open>browser\<close>, \<open>source\<close>, \<open>sales\<close>, \<open>pageViews\<close>, \<open>duration\<close>,
  \<open>session_type\<close>, \<open>segment\<close>, \<open>category\<close>), each the stored value or, for a missing
  key, \<open>''Unknown''\<close> (categorical) or \<open>0\<close> (numeric).
\<close>

theorem normalize_fields_defaults:
  assumes "table \<noteq> []" and "\<forall>r\<in>set table. has_subobjects r"
  shows "normalize_fields table = Inr (map spec_normalize_record table)"
proof -
  have d: "\<forall>r\<in>set table. deviceInfo r \<noteq> None"
    and m: "\<forall>r\<in>set table. sessionMetadata r \<noteq> None"
    and t: "\<forall>r\<in>set table. sessionTags r \<noteq> None"
    using assms(2) by (simp_all add: has_subobjects_def)
  have "normalize_fields table =
    Inr (map (\<lambda>i. spec_normalize_record (table ! i)) [0..<length table])"
    unfolding normalize_fields_def
    by (simp add: column_apply [OF assms(1) d] column_apply [OF assms(1) m]
        column_apply [OF assms(1) t] spec_normalize_record_def)
  then show ?thesis
    by (simp only: rows_by_index)
qed

text \<open>The theorem at a document whose three sub-objects are there and hold no key.\<close>

theorem normalize_fields_defaults_witness:
  "has_subobjects (example_raw (Some no_device_keys) (Some no_metadata_keys) (Some no_tag_keys)) \<and>
   normalize_fields
     [example_raw (Some no_device_keys) (Some no_metadata_keys) (Some no_tag_keys)] =
   Inr [raw_session.extend
          (example_raw (Some no_device_keys) (Some no_metadata_keys) (Some no_tag_keys))
          \<lparr>device = ''Unknown'', browser = ''Unknown'', source = ''Unknown'', sales = 0,
           pageViews = 0, duration = 0, session_type = ''Unknown'', segment = ''Unknown'',
           category = ''Unknown''\<rparr>]"
  using normalize_fields_defaults
    [of "[example_raw (Some no_device_keys) (Some no_metadata_keys) (Some no_tag_keys)]"]
  by (simp add: has_subobjects_def example_raw_def spec_normalize_record_def spec_get_def
      dict_get_def no_device_keys_def no_metadata_keys_def no_tag_keys_def)

text \<open>
  The claim as stated fails at a document without \<^verbatim>\<open>deviceInfo\<close>. Alone in the
  collection, the frame has no such column and \<^verbatim>\<open>df['deviceInfo']\<close> raises KeyError;
  beside a document that has the sub-object, its cell is NaN and the lambda raises
  AttributeError.
\<close>

theorem normalize_fields_missing_subobject:
  "normalize_fields [example_raw None (Some no_metadata_keys) (Some no_tag_keys)] =
     Inl (KeyError ''deviceInfo'') \<and>
   normalize_fields
     [example_raw (Some no_device_keys) (Some no_metadata_keys) (Some no_tag_keys),
      example_raw None (Some no_metadata_keys) (Some no_tag_keys)] = Inl AttributeError"
  by (simp add: normalize_fields_def getitem_def example_raw_def)

subsection \<open>Metrics of an empty filtered table\<close>


subsection \<open>Grouped sums\<close>



subsection \<open>Filter engine\<close>

text \<open>
  Claim C4. For every normalized table, date range \<open>[start_date, end_date]\<close>, allowed
  devices and allowed session types, the filter engine returns exactly the rows, in
  the order of the table, whose \<open>startTime\<close> date lies in the range with both ends
  included, whose device is among the allowed devices and whose session type is among
  the allowed session types.
\<close>

theorem filter_engine_conjunction:
  "filter_engine table [start_date, end_date] devices session_types =
     Inr (filter (\<lambda>r. start_date \<le> date (startTime r) \<and> date (startTime r) \<le> end_date \<and>
                      device r \<in> set devices \<and> session_type r \<in> set session_types) table)"
  by (simp add: filter_engine_cases)

text \<open>
  Claim C5. For every normalized table and every date range whose start is after its
  end, the filter engine returns the empty table and does not raise.
\<close>

theorem filter_engine_empty_range:
  "end_date < start_date \<Longrightarrow>
   filter_engine table [start_date, end_date] devices session_types = Inr []"
  by (simp add: filter_engine_cases filter_empty_conv)

theorem filter_engine_empty_range_witness:
  "(19000 :: int) < 19002 \<and>
   filter_engine scenario_table [19002, 19000] [''mobile'', ''desktop'']
     [''converted'', ''bounced''] = Inr []"
  using filter_engine_empty_range [of 19000 19002 scenario_table "[''mobile'', ''desktop'']"
      "[''converted'', ''bounced'']"]
  by simp

text \<open>
  Claim C6. The filter engine is idempotent: for every normalized table and every fixed
  date range, device set and session type set, the filter applied to its own output
  returns that output.
\<close>

theorem filter_engine_idempotent:
  "filter_engine table date_range devices session_types = Inr out \<Longrightarrow>
   filter_engine out date_range devices session_types = Inr out"
  by (auto simp add: filter_engine_cases split: if_splits)

theorem filter_engine_idempotent_witness:
  "filter_engine scenario_table [19000, 19002] [''mobile''] [''converted''] =
     Inr [example_row 19000 ''mobile'' ''converted'' ''ads'' 50,
          example_row 19002 ''mobile'' ''converted'' ''email'' 30] \<and>
   filter_engine [example_row 19000 ''mobile'' ''converted'' ''ads'' 50,
                  example_row 19002 ''mobile'' ''converted'' ''email'' 30]
     [19000, 19002] [''mobile''] [''converted''] =
     Inr [example_row 19000 ''mobile'' ''converted'' ''ads'' 50,
          example_row 19002 ''mobile'' ''converted'' ''email'' 30]"
  using filter_engine_idempotent [OF scenario_filtered] scenario_filtered
  by simp

text \<open>
  Claim C9. Applying the filter engine leaves the source table unchanged: after the
  statement that produces the filtered view, \<^verbatim>\<open>df\<close> holds the rows it held before, in
  the same order.
\<close>

theorem apply_filters_keeps_df:
  "apply_filters s date_range devices session_types = Inr s' \<Longrightarrow> df s' = df s"
  by (auto simp add: apply_filters_def bind_result_def split: sum.splits)

theorem apply_filters_keeps_df_witness:
  "apply_filters \<lparr>df = scenario_table, filtered_df = None\<rparr> [19000, 19002] [''mobile'']
     [''converted''] =
     Inr \<lparr>df = scenario_table,
          filtered_df = Some [example_row 19000 ''mobile'' ''converted'' ''ads'' 50,
                              example_row 19002 ''mobile'' ''converted'' ''email'' 30]\<rparr> \<and>
   df \<lparr>df = scenario_table,
       filtered_df = Some [example_row 19000 ''mobile'' ''converted'' ''ads'' 50,
                           example_row 19002 ''mobile'' ''converted'' ''email'' 30]\<rparr> =
     df \<lparr>df = scenario_table, filtered_df = None\<rparr>"
proof -
  have run: "apply_filters \<lparr>df = scenario_table, filtered_df = None\<rparr> [19000, 19002]
      [''mobile''] [''converted''] =
     Inr \<lparr>df = scenario_table,
          filtered_df = Some [example_row 19000 ''mobile'' ''converted'' ''ads'' 50,
                              example_row 19002 ''mobile'' ''converted'' ''email'' 30]\<rparr>"
    by (simp add: apply_filters_def scenario_filtered)
  show ?thesis
    using apply_filters_keeps_df [OF run] run by simp
qed

subsection \<open>Sessions over time\<close>

text \<open>
  Claim C7. For every filtered table, \<open>sessions_by_date\<close> maps each calendar date of a
  \<open>startTime\<close> to the number of rows with that date, its dates are in ascending order
  (each once), and a date with no session is absent.
\<close>

theorem sessions_by_date_counts:
  "sorted_wrt (<) (map fst (sessions_by_date table)) \<and>
   map_of (sessions_by_date table) d =
     (let n = length (filter (\<lambda>r. date (startTime r) = d) table)
      in if n = 0 then None else Some n)"
proof
  show "sorted_wrt (<) (map fst (sessions_by_date table))"
    by (simp add: sessions_by_date_def groupby_size_keys strict_sorted_iff)
  have "sessions_by_date table =
    map (\<lambda>k. (k, length (filter (\<lambda>r. date (startTime r) = k) table)))
      (sort (remdups (map (\<lambda>r. date (startTime r)) table)))"
    by (simp add: sessions_by_date_def groupby_size_def groupby_def)
  moreover have "d \<in> (\<lambda>r. date (startTime r)) ` set table \<longleftrightarrow>
    length (filter (\<lambda>r. date (startTime r) = d) table) \<noteq> 0"
    by (auto simp: filter_empty_conv)
  ultimately show "map_of (sessions_by_date table) d =
     (let n = length (filter (\<lambda>r. date (startTime r) = d) table)
      in if n = 0 then None else Some n)"
    by (simp add: map_of_keyed Let_def)
qed

subsection \<open>Grouped sums against the total\<close>


end
